theory Spec2Isabelle
  imports Main
begin

section \<open>Go computations: results, panics and the world\<close>

text \<open>
  A Go \<open>error\<close> is an interface value: \<open>nil\<close> or a value with an \<open>Error()\<close> method.
  The library builds its errors with \<open>errors.New\<close> and \<open>fmt.Errorf\<close>: without the verb
  \<open>%w\<close> both give a plain message (\<open>errorString\<close>), with \<open>%w\<close> \<open>fmt.Errorf\<close> gives a
  message together with the wrapped error (\<open>wrapError\<close>). An optional error is
  \<open>error option\<close>, \<open>None\<close> being \<open>nil\<close>.
\<close>

datatype error = errorString string | wrapError string error

fun Error :: "error \<Rightarrow> string" where
  "Error (errorString s) = s"
| "Error (wrapError msg err) = msg"

fun Unwrap :: "error \<Rightarrow> error option" where
  "Unwrap (errorString s) = None"
| "Unwrap (wrapError msg err) = Some err"

text \<open>
  The argument of \<open>panic\<close> has type \<open>any\<close>. The library panics with errors and with
  strings; \<open>nil_any\<close> is the nil interface, which \<open>recover()\<close> also returns when the
  goroutine is not panicking.
\<close>

datatype any = nil_any | error_any error | string_any string

text \<open>
  A call either returns a value or panics with a payload. A Go function of result type
  \<open>T\<close> is a function from the world before the call to its outcome and the world after
  it; the world \<open>'w\<close> holds everything a function can read or change besides its
  arguments (standard input and output, counters of a test stub, ...).
\<close>

datatype 'a outcome = Returns 'a | Panics any

type_synonym ('a, 'w) go = "'w \<Rightarrow> 'a outcome \<times> 'w"

definition return_go :: "'a \<Rightarrow> ('a, 'w) go" where
  "return_go x w = (Returns x, w)"

definition panic :: "any \<Rightarrow> ('a, 'w) go" where
  "panic p w = (Panics p, w)"

text \<open>Sequencing of two statements: a panic of the first skips the second.\<close>

definition bind_go :: "('a, 'w) go \<Rightarrow> ('a \<Rightarrow> ('b, 'w) go) \<Rightarrow> ('b, 'w) go" where
  "bind_go m f w = (case m w of (Returns x, w') \<Rightarrow> f x w' | (Panics p, w') \<Rightarrow> (Panics p, w'))"

section \<open>errors.go: Must, Check, Try, Or, Ignore\<close>

text \<open>
  \<^verbatim>\<open>
  func Must[T any](v T, err error) T {
      if err != nil { panic(err) }
      return v
  }
  \<close>
\<close>

definition Must :: "'a \<Rightarrow> error option \<Rightarrow> ('a, 'w) go" where
  "Must v err = (case err of Some e \<Rightarrow> panic (error_any e) | None \<Rightarrow> return_go v)"

text \<open>
  \<^verbatim>\<open>
  func Check(err error) {
      if err != nil { panic(err) }
  }
  \<close>
\<close>

definition Check :: "error option \<Rightarrow> (unit, 'w) go" where
  "Check err = (case err of Some e \<Rightarrow> panic (error_any e) | None \<Rightarrow> return_go ())"

text \<open>
  \<^verbatim>\<open>
  func Try[T any](fn func() T) (v T, ok bool) {
      defer func() {
          if recover() != nil { ok = false }
      }()
      return fn(), true
  }
  \<close>
  The named results \<open>v\<close> and \<open>ok\<close> start at their zero values; the zero value of the
  type parameter \<open>T\<close> is the argument \<open>zero\<close>. When \<open>fn\<close> returns, the return statement
  assigns both results and the deferred function finds \<open>recover()\<close> nil. When \<open>fn\<close>
  panics, nothing has been assigned; the deferred function runs, \<open>recover()\<close> stops the
  panic and gives its payload, and \<open>Try\<close> returns the current values of \<open>v\<close> and \<open>ok\<close>.
\<close>

definition Try :: "'a \<Rightarrow> ('a, 'w) go \<Rightarrow> ('a \<times> bool, 'w) go" where
  "Try zero fn w =
     (let v = zero; ok = False in
      case fn w of
        (Returns r, w') \<Rightarrow> (Returns (r, True), w')
      | (Panics p, w') \<Rightarrow>
          (let ok = (if p \<noteq> nil_any then False else ok) in (Returns (v, ok), w')))"

text \<open>
  \<^verbatim>\<open>
  func Or[T any](v T, ok bool, fallback T) T {
      if ok { return v }
      return fallback
  }
  \<close>
\<close>

definition Or :: "'a \<Rightarrow> bool \<Rightarrow> 'a \<Rightarrow> ('a, 'w) go" where
  "Or v ok fallback = (if ok then return_go v else return_go fallback)"

text \<open>
  \<^verbatim>\<open>
  func Ignore(err error) { _ = err }
  \<close>
\<close>

definition Ignore :: "error option \<Rightarrow> (unit, 'w) go" where
  "Ignore err = return_go ()"

text \<open>
  The usage the documentation gives for the three wrappers together
  (docs/api/errors.md), with \<open>v, e\<close> the pair a fallible call such as \<open>strconv.Atoi\<close>
  has produced:
  \<^verbatim>\<open>
  value, ok := gosugar.Try(func() T { return gosugar.Must(v, e) })
  result := gosugar.Or(value, ok, d)
  \<close>
\<close>

definition try_must_or :: "'a \<Rightarrow> 'a \<Rightarrow> error option \<Rightarrow> 'a \<Rightarrow> ('a, 'w) go" where
  "try_must_or zero v e d =
     bind_go (Try zero (Must v e)) (\<lambda>(value, ok). Or value ok d)"

section \<open>Strings and formatting\<close>

text \<open>
  A Go string is a sequence of bytes and \<open>len(s)\<close> is the number of bytes; a
  \<^typ>\<open>char\<close> is one byte, so a Go string is a \<^typ>\<open>string\<close> and \<open>len\<close> is
  \<^const>\<open>length\<close>. The length of a string always fits Go's \<open>int\<close>, and the validators
  only compare \<open>int\<close>s, so \<open>int\<close> is modelled by \<^typ>\<open>int\<close>: every machine \<open>int\<close> is
  one.

  The verb \<open>%d\<close> of \<open>fmt\<close> prints an \<open>int\<close> in decimal, with a minus sign when it is
  negative.
\<close>

definition digit_char :: "nat \<Rightarrow> char" where
  "digit_char d = char_of (48 + d)"

fun digits10 :: "nat \<Rightarrow> string" where
  "digits10 n = (if n < 10 then [digit_char n] else digits10 (n div 10) @ [digit_char (n mod 10)])"

declare digits10.simps [simp del]

definition fmt_d :: "int \<Rightarrow> string" where
  "fmt_d n = (if n < 0 then CHR ''-'' # digits10 (nat (- n)) else digits10 (nat n))"



section \<open>The validators\<close>

text \<open>
  \<^verbatim>\<open>
  type Validator func(string) error
  \<close>
  A validator is any Go function of this type: it may read and change the world, and
  it may panic.
\<close>

type_synonym 'w Validator = "string \<Rightarrow> (error option, 'w) go"

text \<open>
  \<^verbatim>\<open>
  func NotEmpty() Validator {
      return func(s string) error {
          if s == "" { return errors.New("value cannot be empty") }
          return nil
      }
  }
  \<close>
\<close>

definition NotEmpty :: "'w Validator" where
  "NotEmpty = (\<lambda>s.
     if s = [] then return_go (Some (errorString ''value cannot be empty''))
     else return_go None)"

text \<open>
  \<^verbatim>\<open>
  func MinLen(n int) Validator {
      return func(s string) error {
          if len(s) < n { return fmt.Errorf("minimum length is %d", n) }
          return nil
      }
  }
  \<close>
\<close>

definition MinLen :: "int \<Rightarrow> 'w Validator" where
  "MinLen n = (\<lambda>s.
     if int (length s) < n then return_go (Some (errorString (''minimum length is '' @ fmt_d n)))
     else return_go None)"

text \<open>
  \<^verbatim>\<open>
  func MaxLen(n int) Validator {
      return func(s string) error {
          if len(s) > n { return fmt.Errorf("maximum length is %d", n) }
          return nil
      }
  }
  \<close>
\<close>

definition MaxLen :: "int \<Rightarrow> 'w Validator" where
  "MaxLen n = (\<lambda>s.
     if int (length s) > n then return_go (Some (errorString (''maximum length is '' @ fmt_d n)))
     else return_go None)"

section \<open>Input: reading a line and applying the validators\<close>

text \<open>
  The calls of \<open>inputRaw\<close> into the standard library are parameters of the model, each
  an arbitrary Go computation over the world: \<open>fmt.Print\<close>,
  \<open>bufio.NewScanner(os.Stdin)\<close>, and the scanner's \<open>Scan\<close>, \<open>Err\<close> and \<open>Text\<close> (the
  scanner is an object of the world); \<open>strings.TrimSpace\<close> is a function on strings.
\<close>

record 'w stdlib =
  fmt_Print :: "string \<Rightarrow> (unit, 'w) go"
  bufio_NewScanner :: "(unit, 'w) go"
  scanner_Scan :: "(bool, 'w) go"
  scanner_Err :: "(error option, 'w) go"
  scanner_Text :: "(string, 'w) go"
  strings_TrimSpace :: "string \<Rightarrow> string"

text \<open>
  \<^verbatim>\<open>
  func inputRaw(prompt string) string {
      if prompt != "" { fmt.Print(prompt) }
      scanner := bufio.NewScanner(os.Stdin)
      if !scanner.Scan() {
          if err := scanner.Err(); err != nil { panic(err) }
          panic("input error")
      }
      return strings.TrimSpace(scanner.Text())
  }
  \<close>
\<close>

definition inputRaw :: "'w stdlib \<Rightarrow> string \<Rightarrow> (string, 'w) go" where
  "inputRaw lib prompt =
     bind_go (if prompt \<noteq> [] then fmt_Print lib prompt else return_go ()) (\<lambda>_.
     bind_go (bufio_NewScanner lib) (\<lambda>_.
     bind_go (scanner_Scan lib) (\<lambda>scanned.
       if \<not> scanned then
         bind_go (scanner_Err lib) (\<lambda>err.
           case err of Some e \<Rightarrow> panic (error_any e)
           | None \<Rightarrow> panic (string_any ''input error''))
       else
         bind_go (scanner_Text lib) (\<lambda>text. return_go (strings_TrimSpace lib text)))))"

text \<open>
  \<open>fmt.Errorf("invalid string input: %w", err)\<close>: the message is the prefix followed by
  \<open>err.Error()\<close>, and the result wraps \<open>err\<close>.
\<close>

definition invalid_string_input :: "error \<Rightarrow> error" where
  "invalid_string_input err = wrapError (''invalid string input: '' @ Error err) err"

text \<open>
  \<^verbatim>\<open>
  func Input(prompt string, validators ...Validator) string {
      input := inputRaw(prompt)
      for _, validate := range validators {
          if err := validate(input); err != nil {
              panic(fmt.Errorf("invalid string input: %w", err))
          }
      }
      return input
  }
  \<close>
  \<open>Input_loop\<close> is the \<open>for\<close> statement, by recursion on the validators left.
\<close>

fun Input_loop :: "'w Validator list \<Rightarrow> string \<Rightarrow> (unit, 'w) go" where
  "Input_loop [] input w = (Returns (), w)"
| "Input_loop (validate # rest) input w =
     (case validate input w of
        (Panics p, w') \<Rightarrow> (Panics p, w')
      | (Returns (Some err), w') \<Rightarrow> panic (error_any (invalid_string_input err)) w'
      | (Returns None, w') \<Rightarrow> Input_loop rest input w')"

definition Input :: "'w stdlib \<Rightarrow> string \<Rightarrow> 'w Validator list \<Rightarrow> (string, 'w) go" where
  "Input lib prompt validators =
     bind_go (inputRaw lib prompt) (\<lambda>input.
     bind_go (Input_loop validators input) (\<lambda>_.
     return_go input))"

text \<open>
  The chain as the specification words it: \<open>all_succeed vs s w\<close> applies the validators
  one after another in the order of the list, each in the world the one before left,
  and is \<open>Some w'\<close> when every one of them returned \<open>nil\<close>, \<open>w'\<close> being the world after
  the last.
\<close>

fun all_succeed :: "'w Validator list \<Rightarrow> string \<Rightarrow> 'w \<Rightarrow> 'w option" where
  "all_succeed [] s w = Some w"
| "all_succeed (v # vs) s w =
     (case v s w of (Returns None, w') \<Rightarrow> all_succeed vs s w' | _ \<Rightarrow> None)"

text \<open>
  A call-counting stub: \<open>logged i v\<close> behaves as \<open>v\<close> on the first component of the
  world and records its own number \<open>i\<close> in the second each time it is called.
\<close>

definition logged :: "nat \<Rightarrow> 'w Validator \<Rightarrow> ('w \<times> nat list) Validator" where
  "logged i v = (\<lambda>s (w, log). case v s w of (r, w') \<Rightarrow> (r, (w', log @ [i])))"

fun logged_from :: "nat \<Rightarrow> 'w Validator list \<Rightarrow> ('w \<times> nat list) Validator list" where
  "logged_from i [] = []"
| "logged_from i (v # vs) = logged i v # logged_from (Suc i) vs"

text \<open>
  A test double of the standard library, for running \<open>Input\<close> on examples: the world is
  a console with the lines still to be read, the scanner's current token and the bytes
  printed so far. \<open>Scan\<close> takes the next line and is false at the end of the input;
  \<open>TrimSpace\<close> removes the ASCII white space at both ends.
\<close>

record console =
  stdin_lines :: "string list"
  token :: string
  stdout :: string

definition ascii_space :: "char \<Rightarrow> bool" where
  "ascii_space c = (c \<in> set [CHR '' '', CHR 0x09, CHR 0x0A, CHR 0x0B, CHR 0x0C, CHR 0x0D])"

definition console_TrimSpace :: "string \<Rightarrow> string" where
  "console_TrimSpace s = rev (dropWhile ascii_space (rev (dropWhile ascii_space s)))"

definition console_Scan :: "(bool, console) go" where
  "console_Scan c =
     (case stdin_lines c of
        [] \<Rightarrow> (Returns False, c)
      | l # ls \<Rightarrow> (Returns True, c\<lparr>stdin_lines := ls, token := l\<rparr>))"

definition console_lib :: "console stdlib" where
  "console_lib =
     \<lparr>fmt_Print = (\<lambda>p c. (Returns (), c\<lparr>stdout := stdout c @ p\<rparr>)),
      bufio_NewScanner = return_go (),
      scanner_Scan = console_Scan,
      scanner_Err = return_go None,
      scanner_Text = (\<lambda>c. (Returns (token c), c)),
      strings_TrimSpace = console_TrimSpace\<rparr>"

section \<open>Properties of the panic-safe wrappers\<close>

text \<open>
  C8. \<open>Or(v, ok, d)\<close> is a pure total selection: in every world it returns (it never
  panics), the value is \<open>v\<close> when \<open>ok\<close> is true and \<open>d\<close> when \<open>ok\<close> is false, whatever
  \<open>v\<close>, \<open>ok\<close> and \<open>d\<close> are, and the world after the call is the world before it.
\<close>

theorem Or_pure_selection:
  "Or v ok d w = (Returns (if ok then v else d), w)
   \<and> Or v True d w = (Returns v, w)
   \<and> Or v False d w = (Returns d, w)
   \<and> (\<forall>p w'. Or v ok d w \<noteq> (Panics p, w'))"
  by (simp add: Or_def return_go_def)

theorem Or_pure_selection_witness:
  "Or (5::int) True 0 (7::nat) = (Returns 5, 7) \<and> Or (5::int) False 0 (7::nat) = (Returns 0, 7)"
  using Or_pure_selection [of "5::int" True 0 "7::nat"] Or_pure_selection [of "5::int" False 0 "7::nat"]
  by simp

text \<open>
  C4. \<open>Must(v, e)\<close> panics exactly when \<open>e\<close> is not nil, the payload of the panic is
  \<open>e\<close> itself, and it returns \<open>v\<close> unchanged when \<open>e\<close> is nil. \<open>Check(e)\<close> panics
  exactly when \<open>e\<close> is not nil, with payload \<open>e\<close>, and returns without any effect when
  \<open>e\<close> is nil. Neither changes the world.
\<close>

theorem Must_Check_abort_iff:
  "(Must v e w = (Panics (error_any err), w) \<longleftrightarrow> e = Some err)
   \<and> ((\<exists>p w'. Must v e w = (Panics p, w')) \<longleftrightarrow> e \<noteq> None)
   \<and> (e = None \<longrightarrow> Must v e w = (Returns v, w))
   \<and> (Check e w = (Panics (error_any err), w) \<longleftrightarrow> e = Some err)
   \<and> ((\<exists>p w'. Check e w = (Panics p, w')) \<longleftrightarrow> e \<noteq> None)
   \<and> (e = None \<longrightarrow> Check e w = (Returns (), w))"
  by (cases e) (simp_all add: Must_def Check_def panic_def return_go_def)

theorem Must_Check_abort_iff_witness:
  "Must (0::int) (Some (errorString ''invalid syntax'')) (3::nat)
     = (Panics (error_any (errorString ''invalid syntax'')), 3)
   \<and> Must (42::int) None (3::nat) = (Returns 42, 3)
   \<and> Check (Some (errorString ''disk full'')) (3::nat)
     = (Panics (error_any (errorString ''disk full'')), 3)
   \<and> Check None (3::nat) = (Returns (), 3)"
  using Must_Check_abort_iff [where v = "0::int" and e = "Some (errorString ''invalid syntax'')"
          and w = "3::nat" and err = "errorString ''invalid syntax''"]
        Must_Check_abort_iff [where v = "42::int" and e = None and w = "3::nat"]
        Must_Check_abort_iff [where v = "0::int" and e = "Some (errorString ''disk full'')"
          and w = "3::nat" and err = "errorString ''disk full''"]
  by simp

text \<open>
  C2. For every operation \<open>fn\<close> and every world: when \<open>fn()\<close> returns \<open>r\<close>, \<open>Try(fn)\<close>
  returns \<open>(r, true)\<close>; when \<open>fn()\<close> panics, with any payload (nil included), \<open>Try(fn)\<close>
  returns \<open>(zero, false)\<close>, \<open>zero\<close> being the zero value of the result type; so whenever
  the returned \<open>ok\<close> is false the returned value is that zero value. \<open>Try\<close> itself never
  panics, and the world after it is the world \<open>fn\<close> left.
\<close>

theorem Try_contains_panic:
  "(fn w = (Returns r, w') \<longrightarrow> Try zero fn w = (Returns (r, True), w'))
   \<and> (fn w = (Panics p, w') \<longrightarrow> Try zero fn w = (Returns (zero, False), w'))
   \<and> (Try zero fn w = (Returns (v, False), w'') \<longrightarrow> v = zero)
   \<and> (\<forall>q u. Try zero fn w \<noteq> (Panics q, u))"
proof (cases "fn w")
  case (Pair out u)
  then show ?thesis
    by (cases out) (simp_all add: Try_def)
qed

theorem Try_contains_panic_witness:
  "Try (0::int) (\<lambda>w::nat. (Returns 42, Suc w)) 0 = (Returns (42, True), 1)
   \<and> Try (0::int) (\<lambda>w::nat. (Panics (string_any ''integer divide by zero''), Suc w)) 0
       = (Returns (0, False), 1)
   \<and> Try (0::int) (\<lambda>w::nat. (Panics nil_any, Suc w)) 0 = (Returns (0, False), 1)"
proof -
  have "(\<lambda>w::nat. (Returns (42::int), Suc w)) 0 = (Returns 42, 1)"
    by simp
  moreover have "(\<lambda>w::nat. (Panics (string_any ''integer divide by zero'') :: int outcome, Suc w)) 0
      = (Panics (string_any ''integer divide by zero''), 1)"
    by simp
  moreover have "(\<lambda>w::nat. (Panics nil_any :: int outcome, Suc w)) 0 = (Panics nil_any, 1)"
    by simp
  ultimately show ?thesis
    using Try_contains_panic [where fn = "\<lambda>w::nat. (Returns (42::int), Suc w)" and w = 0
            and r = 42 and w' = 1 and zero = 0, THEN conjunct1]
          Try_contains_panic [where fn = "\<lambda>w::nat. (Panics (string_any ''integer divide by zero''), Suc w)"
            and w = 0 and w' = 1 and p = "string_any ''integer divide by zero''" and zero = "0::int",
            THEN conjunct2, THEN conjunct1]
          Try_contains_panic [where fn = "\<lambda>w::nat. (Panics nil_any, Suc w)" and w = 0 and w' = 1
            and p = nil_any and zero = "0::int", THEN conjunct2, THEN conjunct1]
    by blast
qed


text \<open>
  C3. Round trip of the three wrappers: \<open>Try\<close> around \<open>Must(v, e)\<close>, followed by \<open>Or\<close> with
  the fallback \<open>d\<close>, returns \<open>v\<close> when \<open>e\<close> is nil and \<open>d\<close> when \<open>e\<close> is an error: the
  panic of \<open>Must\<close> is contained by \<open>Try\<close> and replaced by the fallback.
\<close>

theorem try_must_or_roundtrip:
  "(e = None \<longrightarrow> try_must_or zero v e d w = (Returns v, w))
   \<and> (e \<noteq> None \<longrightarrow> try_must_or zero v e d w = (Returns d, w))"
  by (cases e) (simp_all add: try_must_or_def bind_go_def Try_def Must_def Or_def panic_def return_go_def)

theorem try_must_or_roundtrip_witness:
  "try_must_or (0::int) 0 (Some (errorString ''invalid syntax'')) 7 (3::nat) = (Returns 7, 3)
   \<and> try_must_or (0::int) 12 None 7 (3::nat) = (Returns 12, 3)"
  using try_must_or_roundtrip [of "Some (errorString ''invalid syntax'')" "0::int" 0 7 "3::nat"]
        try_must_or_roundtrip [of None "0::int" 12 7 "3::nat"]
  by simp

section \<open>Properties of the validators\<close>





text \<open>
  C7. \<open>NotEmpty()\<close> applied to the empty string returns the error
  "value cannot be empty"; applied to any other string it returns nil; in both cases
  it leaves the world as it was.
\<close>

theorem NotEmpty_empty_string:
  "NotEmpty [] w = (Returns (Some (errorString ''value cannot be empty'')), w)
   \<and> (s \<noteq> [] \<longrightarrow> NotEmpty s w = (Returns None, w))"
  by (simp add: NotEmpty_def return_go_def)

theorem NotEmpty_empty_string_witness:
  "NotEmpty [] (3::nat) = (Returns (Some (errorString ''value cannot be empty'')), 3)
   \<and> NotEmpty ''a'' (3::nat) = (Returns None, 3)"
  using NotEmpty_empty_string [where s = "''a''" and w = "3::nat"]
  by simp

text \<open>
  C5. For \<open>n \<ge> 0\<close> and every string \<open>s\<close>, \<open>MinLen(n)\<close> applied to \<open>s\<close> returns an error
  if and only if \<open>len(s) < n\<close>; the error then reads "minimum length is " followed by
  \<open>n\<close> in decimal; otherwise the validator returns nil.
\<close>

theorem MinLen_fails_iff:
  assumes "0 \<le> n"
  shows "((\<exists>reason w'. MinLen n s w = (Returns (Some reason), w')) \<longleftrightarrow> int (length s) < n)
    \<and> (int (length s) < n \<longrightarrow>
         MinLen n s w = (Returns (Some (errorString (''minimum length is '' @ fmt_d n))), w))
    \<and> (\<not> int (length s) < n \<longrightarrow> MinLen n s w = (Returns None, w))"
  by (simp add: MinLen_def return_go_def)

theorem MinLen_fails_iff_witness:
  "(0::int) \<le> 3
   \<and> MinLen 3 ''ab'' (0::nat) = (Returns (Some (errorString ''minimum length is 3'')), 0)
   \<and> MinLen 3 ''abc'' (0::nat) = (Returns None, 0)
   \<and> (0::int) \<le> 12
   \<and> MinLen 12 ''abc'' (0::nat) = (Returns (Some (errorString ''minimum length is 12'')), 0)"
proof -
  have d: "fmt_d 3 = ''3''" "fmt_d 12 = ''12''"
    by code_simp+
  have h: "(0::int) \<le> 3"
    by simp
  have h': "(0::int) \<le> 12"
    by simp
  show ?thesis
    using MinLen_fails_iff [OF h, where s = "''ab''" and w = "0::nat"]
          MinLen_fails_iff [OF h, where s = "''abc''" and w = "0::nat"]
          MinLen_fails_iff [OF h', where s = "''abc''" and w = "0::nat"] d
    by simp
qed

text \<open>
  C6. For \<open>n \<ge> 0\<close> and every string \<open>s\<close>, \<open>MaxLen(n)\<close> applied to \<open>s\<close> returns an error
  if and only if \<open>len(s) > n\<close>; the error then reads "maximum length is " followed by
  \<open>n\<close> in decimal; otherwise the validator returns nil.
\<close>

theorem MaxLen_fails_iff:
  assumes "0 \<le> n"
  shows "((\<exists>reason w'. MaxLen n s w = (Returns (Some reason), w')) \<longleftrightarrow> int (length s) > n)
    \<and> (int (length s) > n \<longrightarrow>
         MaxLen n s w = (Returns (Some (errorString (''maximum length is '' @ fmt_d n))), w))
    \<and> (\<not> int (length s) > n \<longrightarrow> MaxLen n s w = (Returns None, w))"
  by (simp add: MaxLen_def return_go_def)

theorem MaxLen_fails_iff_witness:
  "(0::int) \<le> 5
   \<and> MaxLen 5 ''abcdef'' (0::nat) = (Returns (Some (errorString ''maximum length is 5'')), 0)
   \<and> MaxLen 5 ''abcde'' (0::nat) = (Returns None, 0)"
proof -
  have d: "fmt_d 5 = ''5''"
    by code_simp
  have h: "(0::int) \<le> 5"
    by simp
  show ?thesis
    using MaxLen_fails_iff [OF h, where s = "''abcdef''" and w = "0::nat"]
          MaxLen_fails_iff [OF h, where s = "''abcde''" and w = "0::nat"] d
    by simp
qed

text \<open>
  C9. A negative bound is accepted by both constructors (they are total, and the
  validator they build runs on every string): for \<open>n < 0\<close>, \<open>MinLen(n)\<close> returns nil on
  every string, and \<open>MaxLen(n)\<close> returns the error "maximum length is " followed by
  \<open>n\<close> in decimal (with its minus sign) on every string.
\<close>

theorem negative_length_bound:
  assumes "n < 0"
  shows "MinLen n s w = (Returns None, w)
    \<and> MaxLen n s w = (Returns (Some (errorString (''maximum length is '' @ fmt_d n))), w)"
  using assms by (simp add: MinLen_def MaxLen_def return_go_def)

theorem negative_length_bound_witness:
  "(- 1::int) < 0
   \<and> MinLen (- 1) [] (0::nat) = (Returns None, 0)
   \<and> MaxLen (- 1) [] (0::nat) = (Returns (Some (errorString ''maximum length is -1'')), 0)"
proof -
  have d: "fmt_d (- 1) = ''-1''"
    by code_simp
  have h: "(- 1::int) < 0"
    by simp
  show ?thesis
    using negative_length_bound [OF h, where s = "[]" and w = "0::nat"] d
    by simp
qed



section \<open>Properties of the validator chain\<close>

lemma Input_loop_first_failure:
  "all_succeed pre s w = Some w1 \<Longrightarrow> v s w1 = (Returns (Some r), w2) \<Longrightarrow>
   Input_loop (pre @ v # post) s w = (Panics (error_any (invalid_string_input r)), w2)"
proof (induction pre arbitrary: w)
  case Nil
  then show ?case by (simp add: panic_def)
next
  case (Cons a pre)
  from Cons.prems(1) obtain w' where a: "a s w = (Returns None, w')"
    and rest: "all_succeed pre s w' = Some w1"
    by (auto split: prod.splits outcome.splits option.splits)
  have "Input_loop (pre @ v # post) s w' = (Panics (error_any (invalid_string_input r)), w2)"
    using rest Cons.prems(2) by (rule Cons.IH)
  with a show ?case by simp
qed

lemma Input_loop_all_succeed:
  "all_succeed vs s w = Some w' \<Longrightarrow> Input_loop vs s w = (Returns (), w')"
proof (induction vs arbitrary: w)
  case Nil
  then show ?case by simp
next
  case (Cons a vs)
  from Cons.prems obtain u where a: "a s w = (Returns None, u)"
    and rest: "all_succeed vs s u = Some w'"
    by (auto split: prod.splits outcome.splits option.splits)
  from Cons.IH [OF rest] a show ?case by simp
qed

lemma logged_from_append:
  "logged_from i (xs @ ys) = logged_from i xs @ logged_from (i + length xs) ys"
  by (induction xs arbitrary: i) simp_all

lemma all_succeed_logged:
  "all_succeed vs s w = Some w' \<Longrightarrow>
   all_succeed (logged_from i vs) s (w, l) = Some (w', l @ [i..<i + length vs])"
proof (induction vs arbitrary: w i l)
  case Nil
  then show ?case by simp
next
  case (Cons a vs)
  from Cons.prems obtain u where a: "a s w = (Returns None, u)"
    and rest: "all_succeed vs s u = Some w'"
    by (auto split: prod.splits outcome.splits option.splits)
  have "all_succeed (logged_from (Suc i) vs) s (u, l @ [i])
      = Some (w', (l @ [i]) @ [Suc i..<Suc i + length vs])"
    by (rule Cons.IH [OF rest])
  moreover have "[i..<i + length (a # vs)] = i # [Suc i..<Suc i + length vs]"
    by (simp add: upt_rec)
  ultimately show ?case using a by (simp add: logged_def)
qed

lemma Input_after_inputRaw:
  "inputRaw lib prompt w0 = (Returns input, w) \<Longrightarrow>
   Input lib prompt validators w0 =
     (case Input_loop validators input w of
        (Returns u, w') \<Rightarrow> (Returns input, w')
      | (Panics p, w') \<Rightarrow> (Panics p, w'))"
  by (simp add: Input_def bind_go_def return_go_def split: prod.splits outcome.splits)

text \<open>
  C1. The loop of \<open>Input\<close> on any list of validators and any input string.

  Failure: when the list is \<open>pre @ v # post\<close>, the validators of \<open>pre\<close>, applied in their
  order from the world \<open>w\<close>, all return nil and leave the world \<open>w1\<close>, and \<open>v\<close> then
  returns the error \<open>reason\<close> and leaves \<open>w2\<close>, the loop panics in the world \<open>w2\<close> with an
  error that reads "invalid string input: " followed by the message of \<open>reason\<close> and
  wraps \<open>reason\<close>. Nothing of this depends on \<open>post\<close>: the later validators are not
  called, whatever they would do. With call-counting stubs the calls recorded are
  exactly numbers \<open>0\<close> to \<open>length pre\<close>, in this order. \<open>Input\<close> as a whole panics in the
  same way once \<open>inputRaw\<close> has returned the input.

  Success: when all the validators, applied in their order, return nil, the loop
  returns, every validator has been called once in the order of the list, and \<open>Input\<close>
  returns the string \<open>inputRaw\<close> has produced (the trimmed line), unchanged.
\<close>

theorem Input_validator_chain:
  "(validators = pre @ v # post \<and> all_succeed pre input w = Some w1
      \<and> v input w1 = (Returns (Some reason), w2) \<longrightarrow>
        Input_loop validators input w = (Panics (error_any (invalid_string_input reason)), w2)
      \<and> Error (invalid_string_input reason) = ''invalid string input: '' @ Error reason
      \<and> Unwrap (invalid_string_input reason) = Some reason
      \<and> Input_loop (logged_from 0 validators) input (w, [])
          = (Panics (error_any (invalid_string_input reason)), (w2, [0..<Suc (length pre)]))
      \<and> (inputRaw lib prompt w0 = (Returns input, w) \<longrightarrow>
          Input lib prompt validators w0
            = (Panics (error_any (invalid_string_input reason)), w2)))
   \<and> (all_succeed validators input w = Some w' \<longrightarrow>
        Input_loop validators input w = (Returns (), w')
      \<and> Input_loop (logged_from 0 validators) input (w, [])
          = (Returns (), (w', [0..<length validators]))
      \<and> (inputRaw lib prompt w0 = (Returns input, w) \<longrightarrow>
          Input lib prompt validators w0 = (Returns input, w')))"
proof (intro conjI impI)
  assume "validators = pre @ v # post \<and> all_succeed pre input w = Some w1
      \<and> v input w1 = (Returns (Some reason), w2)"
  then have split: "validators = pre @ v # post"
    and pre: "all_succeed pre input w = Some w1"
    and v: "v input w1 = (Returns (Some reason), w2)"
    by simp_all
  show loop: "Input_loop validators input w
      = (Panics (error_any (invalid_string_input reason)), w2)"
    unfolding split using pre v by (rule Input_loop_first_failure)
  show "Error (invalid_string_input reason) = ''invalid string input: '' @ Error reason"
    by (simp add: invalid_string_input_def)
  show "Unwrap (invalid_string_input reason) = Some reason"
    by (simp add: invalid_string_input_def)
  have lpre: "all_succeed (logged_from 0 pre) input (w, []) = Some (w1, [0..<length pre])"
    using all_succeed_logged [OF pre, of 0 "[]"] by simp
  have lv: "logged (length pre) v input (w1, [0..<length pre])
      = (Returns (Some reason), (w2, [0..<Suc (length pre)]))"
    using v by (simp add: logged_def)
  have "logged_from 0 validators
      = logged_from 0 pre @ logged (length pre) v # logged_from (Suc (length pre)) post"
    unfolding split by (simp add: logged_from_append)
  then show "Input_loop (logged_from 0 validators) input (w, [])
      = (Panics (error_any (invalid_string_input reason)), (w2, [0..<Suc (length pre)]))"
    using Input_loop_first_failure [where v = "logged (length pre) v" and s = input, OF lpre lv] by simp
  assume "inputRaw lib prompt w0 = (Returns input, w)"
  then show "Input lib prompt validators w0
      = (Panics (error_any (invalid_string_input reason)), w2)"
    using loop by (simp add: Input_after_inputRaw)
next
  assume all: "all_succeed validators input w = Some w'"
  show loop: "Input_loop validators input w = (Returns (), w')"
    by (rule Input_loop_all_succeed [OF all])
  show "Input_loop (logged_from 0 validators) input (w, [])
      = (Returns (), (w', [0..<length validators]))"
    using Input_loop_all_succeed [OF all_succeed_logged [OF all, of 0 "[]"]] by simp
  assume "inputRaw lib prompt w0 = (Returns input, w)"
  then show "Input lib prompt validators w0 = (Returns input, w')"
    using loop by (simp add: Input_after_inputRaw)
qed


theorem Input_validator_chain_witness:
  "Input console_lib ''Name: '' [NotEmpty, MinLen 3, MaxLen 1]
      \<lparr>stdin_lines = ['' ab  ''], token = [], stdout = []\<rparr>
     = (Panics (error_any (wrapError ''invalid string input: minimum length is 3''
                  (errorString ''minimum length is 3''))),
        \<lparr>stdin_lines = [], token = '' ab  '', stdout = ''Name: ''\<rparr>)
   \<and> snd (snd (Input_loop (logged_from 0 [NotEmpty, MinLen 3, MaxLen 1]) ''ab''
        (\<lparr>stdin_lines = [], token = '' ab  '', stdout = ''Name: ''\<rparr>, []))) = [0, 1]
   \<and> Input console_lib ''Name: '' [NotEmpty, MinLen 3, MaxLen 5]
      \<lparr>stdin_lines = [''abcd ''], token = [], stdout = []\<rparr>
     = (Returns ''abcd'', \<lparr>stdin_lines = [], token = ''abcd '', stdout = ''Name: ''\<rparr>)
   \<and> snd (snd (Input_loop (logged_from 0 [NotEmpty, MinLen 3, MaxLen 5]) ''abcd''
        (\<lparr>stdin_lines = [], token = ''abcd '', stdout = ''Name: ''\<rparr>, []))) = [0, 1, 2]"
proof -
  let ?before_a = "\<lparr>stdin_lines = ['' ab  ''], token = [], stdout = []\<rparr>"
  let ?after_a = "\<lparr>stdin_lines = [], token = '' ab  '', stdout = ''Name: ''\<rparr>"
  let ?before_b = "\<lparr>stdin_lines = [''abcd ''], token = [], stdout = []\<rparr>"
  let ?after_b = "\<lparr>stdin_lines = [], token = ''abcd '', stdout = ''Name: ''\<rparr>"
  let ?reason = "errorString ''minimum length is 3''"
  have d3: "fmt_d 3 = ''3''"
    by code_simp
  have wrap: "invalid_string_input ?reason
      = wrapError ''invalid string input: minimum length is 3'' ?reason"
    by (simp add: invalid_string_input_def)
  have raw_a: "inputRaw console_lib ''Name: '' ?before_a = (Returns ''ab'', ?after_a)"
    by (simp add: inputRaw_def console_lib_def console_Scan_def console_TrimSpace_def
        ascii_space_def bind_go_def return_go_def)
  have raw_b: "inputRaw console_lib ''Name: '' ?before_b = (Returns ''abcd'', ?after_b)"
    by (simp add: inputRaw_def console_lib_def console_Scan_def console_TrimSpace_def
        ascii_space_def bind_go_def return_go_def)
  have fail_a: "[NotEmpty, MinLen 3, MaxLen 1] = [NotEmpty] @ MinLen 3 # [MaxLen 1]
      \<and> all_succeed [NotEmpty] ''ab'' ?after_a = Some ?after_a
      \<and> MinLen 3 ''ab'' ?after_a = (Returns (Some ?reason), ?after_a)"
    using d3 by (simp add: NotEmpty_def MinLen_def return_go_def)
  have pass_b: "all_succeed [NotEmpty, MinLen 3, MaxLen 5] ''abcd'' ?after_b = Some ?after_b"
    by (simp add: NotEmpty_def MinLen_def MaxLen_def return_go_def)
  note a = Input_validator_chain [where validators = "[NotEmpty, MinLen 3, MaxLen 1]"
      and pre = "[NotEmpty]" and v = "MinLen 3" and post = "[MaxLen 1]" and input = "''ab''"
      and w = ?after_a and ?w1.0 = ?after_a and ?w2.0 = ?after_a and reason = ?reason
      and w' = ?after_a and lib = console_lib and prompt = "''Name: ''" and ?w0.0 = ?before_a,
      THEN conjunct1, THEN mp, OF fail_a]
  note b = Input_validator_chain [where validators = "[NotEmpty, MinLen 3, MaxLen 5]"
      and pre = "[]" and v = "MinLen 3" and post = "[]" and input = "''abcd''"
      and w = ?after_b and ?w1.0 = ?after_b and ?w2.0 = ?after_b and reason = ?reason
      and w' = ?after_b and lib = console_lib and prompt = "''Name: ''" and ?w0.0 = ?before_b,
      THEN conjunct2, THEN mp, OF pass_b]
  have "Input console_lib ''Name: '' [NotEmpty, MinLen 3, MaxLen 1] ?before_a
      = (Panics (error_any (invalid_string_input ?reason)), ?after_a)"
    using a raw_a by blast
  moreover have "Input_loop (logged_from 0 [NotEmpty, MinLen 3, MaxLen 1]) ''ab'' (?after_a, [])
      = (Panics (error_any (invalid_string_input ?reason)),
         (?after_a, [0..<Suc (length [NotEmpty :: console Validator])]))"
    using a by blast
  moreover have "Input console_lib ''Name: '' [NotEmpty, MinLen 3, MaxLen 5] ?before_b
      = (Returns ''abcd'', ?after_b)"
    using b raw_b by blast
  moreover have "Input_loop (logged_from 0 [NotEmpty, MinLen 3, MaxLen 5]) ''abcd'' (?after_b, [])
      = (Returns (), (?after_b, [0..<length [NotEmpty :: console Validator, MinLen 3, MaxLen 5]]))"
    using b by blast
  moreover have "[0..<Suc (length [NotEmpty :: console Validator])] = [0, 1]"
    by (simp add: upt_rec)
  moreover have "[0..<length [NotEmpty :: console Validator, MinLen 3, MaxLen 5]] = [0, 1, 2]"
    by (simp add: upt_rec)
  ultimately show ?thesis
    using wrap by simp
qed

end
